theory Spec2Isabelle
  imports Main "HOL-Library.AList"
begin

section \<open>Values and messages\<close>

text \<open>
  The values the two services pass around are the ones \<open>json.loads\<close> produces: \<open>None\<close>,
  booleans, integers of any size, strings, lists and dictionaries with string keys.
  Numbers with a fraction or an exponent (Python floats) are left out of the model.
  A string is a list of characters; a character stands for one code point of the
  Latin-1 range (0 to 255).
\<close>

datatype pyval =
    PNone
  | PBool bool
  | PInt int
  | PStr string
  | PList "pyval list"
  | PDict "(string \<times> pyval) list"

text \<open>
  An f-string is kept as the list of its pieces, in order: the literal text between the
  braces and the values interpolated inside them. Python renders the string by putting
  \<open>format(v)\<close> in the place of every interpolated \<open>v\<close> and concatenating; two f-strings
  with the same pieces render the same text.
\<close>

datatype piece = Lit string | Fmt pyval

type_synonym fstring = "piece list"

text \<open>The apostrophe, for the literal text that has one at its border.\<close>

definition apos :: string where
  "apos = [CHR 0x27]"

text \<open>\<open>fastapi.HTTPException(status_code, detail)\<close>.\<close>

record HTTPException =
  status_code :: nat
  detail :: fstring

definition HTTP_400_BAD_REQUEST :: nat where
  "HTTP_400_BAD_REQUEST = 400"

definition HTTP_500_INTERNAL_SERVER_ERROR :: nat where
  "HTTP_500_INTERNAL_SERVER_ERROR = 500"

definition HTTP_503_SERVICE_UNAVAILABLE :: nat where
  "HTTP_503_SERVICE_UNAVAILABLE = 503"

subsection \<open>\<open>str.lower\<close>\<close>

text \<open>
  On the code points 0 to 255 \<open>str.lower\<close> moves the ASCII capitals \<open>A\<close> to \<open>Z\<close>
  (65 to 90) and the Latin-1 capitals (192 to 222, without the multiplication sign 215)
  up by 32 and keeps every other code point.
\<close>

definition char_lower :: "char \<Rightarrow> char" where
  "char_lower c =
     (let n = (of_char c :: nat)
      in if (65 \<le> n \<and> n \<le> 90) \<or> (192 \<le> n \<and> n \<le> 222 \<and> n \<noteq> 215)
         then char_of (n + 32) else c)"

definition str_lower :: "string \<Rightarrow> string" where
  "str_lower s = map char_lower s"

section \<open>Inventory service (\<open>inventory-service/main.py\<close>)\<close>

text \<open>
  The store is one module-level dictionary from item names to counts. A Python
  dictionary keeps its keys in insertion order, and assigning to a key that is present
  keeps the key's place: an association list with \<open>map_of\<close> for the lookup and
  \<open>AList.update\<close> for the assignment.
\<close>

type_synonym inventory_dict = "(string \<times> int) list"

definition inventory :: inventory_dict where
  "inventory = [(''tshirts'', 20), (''pants'', 15)]"

record InventoryUpdateRequest =
  item :: string
  change :: int

text \<open>\<open>get_inventory\<close> returns the dictionary and changes nothing.\<close>

definition get_inventory :: "inventory_dict \<Rightarrow> inventory_dict" where
  "get_inventory db = db"

text \<open>
  \<open>update_inventory\<close> takes the dictionary as it is before the call and returns the
  outcome of the call (the raised \<open>HTTPException\<close>, or the returned dictionary)
  together with the dictionary as it is after the call.
\<close>

definition update_inventory ::
  "inventory_dict \<Rightarrow> InventoryUpdateRequest \<Rightarrow> (HTTPException + inventory_dict) \<times> inventory_dict"
where
  "update_inventory db request =
     (let item_name = str_lower (item request);
          change_amount = change request
      in case map_of db item_name of
           None \<Rightarrow>
             (Inl \<lparr>status_code = HTTP_400_BAD_REQUEST,
                   detail = [Lit (''Invalid item: '' @ apos), Fmt (PStr (item request)),
                             Lit (apos @ ''. Only 'tshirts' and 'pants' are supported.'')]\<rparr>,
              db)
         | Some current \<Rightarrow>
             (let new_stock = current + change_amount
              in if new_stock < 0
                 then (Inl \<lparr>status_code = HTTP_400_BAD_REQUEST,
                             detail = [Lit (''Cannot reduce '' @ apos), Fmt (PStr item_name),
                                       Lit (apos @ '' stock below zero. Current: ''),
                                       Fmt (PInt current),
                                       Lit '', Attempted change: '',
                                       Fmt (PInt change_amount)]\<rparr>,
                       db)
                 else (let db' = AList.update item_name new_stock db
                       in (Inr db', db'))))"

text \<open>
  The fixed set of items: the keys the dictionary is created with.
\<close>

definition known_items :: "string list" where
  "known_items = map fst inventory"

subsection \<open>Sequences of calls\<close>

datatype call = Read | Update InventoryUpdateRequest

fun serve :: "inventory_dict \<Rightarrow> call \<Rightarrow> (HTTPException + inventory_dict) \<times> inventory_dict" where
  "serve db Read = (Inr (get_inventory db), db)"
| "serve db (Update r) = update_inventory db r"

text \<open>
  The dictionaries the store goes through while a list of calls is served one after
  the other; the first one is the dictionary before any call, the last one the
  dictionary after all of them.
\<close>

fun history :: "inventory_dict \<Rightarrow> call list \<Rightarrow> inventory_dict list" where
  "history db [] = [db]"
| "history db (c # cs) = db # history (snd (serve db c)) cs"

text \<open>The update requests of a list that the store accepts when they are served in order.\<close>

fun accepted :: "inventory_dict \<Rightarrow> InventoryUpdateRequest list \<Rightarrow> InventoryUpdateRequest list" where
  "accepted db [] = []"
| "accepted db (r # rs) =
     (case update_inventory db r of
        (Inl e, db') \<Rightarrow> accepted db' rs
      | (Inr m, db') \<Rightarrow> r # accepted db' rs)"

text \<open>The sum of the accepted changes that are addressed to item \<open>k\<close>.\<close>

definition accepted_total :: "inventory_dict \<Rightarrow> InventoryUpdateRequest list \<Rightarrow> string \<Rightarrow> int" where
  "accepted_total db rs k =
     sum_list (map change (filter (\<lambda>r. str_lower (item r) = k) (accepted db rs)))"

subsection \<open>Letter case, in the words of the specification\<close>

text \<open>
  \<open>capital_of C c\<close>: \<open>c\<close> is a small ASCII letter and \<open>C\<close> is its capital. Two
  identifiers differ only in letter case when they have the same length and, place by
  place, the same character or a letter and its capital.
\<close>

definition capital_of :: "char \<Rightarrow> char \<Rightarrow> bool" where
  "capital_of C c \<longleftrightarrow>
     97 \<le> (of_char c :: nat) \<and> (of_char c :: nat) \<le> 122 \<and> (of_char C :: nat) + 32 = of_char c"

definition same_letter :: "char \<Rightarrow> char \<Rightarrow> bool" where
  "same_letter c d \<longleftrightarrow> c = d \<or> capital_of c d \<or> capital_of d c"

definition differs_only_in_case :: "string \<Rightarrow> string \<Rightarrow> bool" where
  "differs_only_in_case s t \<longleftrightarrow> list_all2 same_letter s t"

text \<open>Every stored count is at least zero.\<close>

definition nonneg :: "inventory_dict \<Rightarrow> bool" where
  "nonneg db \<longleftrightarrow> (\<forall>c \<in> set (map snd db). 0 \<le> c)"

section \<open>MCP server (\<open>mcp-server/main.py\<close>)\<close>

definition INVENTORY_SERVICE_BASE_URL :: string where
  "INVENTORY_SERVICE_BASE_URL = ''http://localhost:8000''"

subsection \<open>The prompt\<close>

text \<open>
  \<open>llm_prompt.format(user_query=user_query)\<close>: the text of the global \<open>llm_prompt\<close> with
  the doubled braces of the template written once and the query in the place of
  \<open>{user_query}\<close>. The text is given line by line; \<open>text_lines\<close> ends every line with a
  line feed.
\<close>

definition text_lines :: "string list \<Rightarrow> string" where
  "text_lines ls = concat (map (\<lambda>l. l @ [CHR 0x0A]) ls)"

definition llm_prompt :: "string \<Rightarrow> string" where
  \<open>llm_prompt user_query =
     text_lines
      ['''',
       ''You are an intelligent assistant that converts natural language inventory requests into structured JSON commands for an Inventory Management System.'',
       ''The inventory system manages only two items: 'tshirts' and 'pants'.'',
       '''',
       ''Your task is to determine the 'operation' (GET or POST), the 'item' (if applicable), and the 'change' amount (if applicable) based on the user's query.'',
       ''If the operation is 'GET', 'item' and 'change' should be null.'',
       ''If the operation is 'POST', 'item' and 'change' are required.'',
       ''Always provide a 'reasoning' for your decision.'',
       '''',
       ''Here are some examples:'',
       '''',
       ''User Query: "I sold 3 t shirts"'',
       ''JSON Response: {"operation": "POST", "item": "tshirts", "change": -3, "reasoning": "User indicates selling, which means reducing stock. Item is 'tshirts', amount is 3."}'',
       '''',
       ''User Query: "Add 5 pants"'',
       ''JSON Response: {"operation": "POST", "item": "pants", "change": 5, "reasoning": "User indicates adding stock. Item is 'pants', amount is 5."}'',
       '''',
       ''User Query: "How many pants and shirts do I have?"'',
       ''JSON Response: {"operation": "GET", "item": null, "change": null, "reasoning": "User is asking for current stock levels, which is a GET operation."}'',
       '''',
       ''User Query: "What's the stock of tshirts?"'',
       ''JSON Response: {"operation": "GET", "item": "tshirts", "change": null, "reasoning": "User is asking for the stock of a specific item, which is a GET operation."}'',
       '''',
       ''User Query: "Increase tshirts by 10"'',
       ''JSON Response: {"operation": "POST", "item": "tshirts", "change": 10, "reasoning": "User wants to increase stock. Item is 'tshirts', amount is 10."}'',
       '''',
       ''User Query: "Reduce pants by 2"'',
       ''JSON Response: {"operation": "POST", "item": "pants", "change": -2, "reasoning": "User wants to reduce stock. Item is 'pants', amount is 2."}'',
       '''',
       ''User Query: "Check inventory"'',
       ''JSON Response: {"operation": "GET", "item": null, "change": null, "reasoning": "User is asking for general inventory status, which is a GET operation."}'',
       '''']
     @ ''User Query: "'' @ user_query @ ''"'' @ [CHR 0x0A]
     @ text_lines [''JSON Response:'']\<close>

subsection \<open>The world outside the function\<close>

text \<open>
  The requests the server sends over the network, in the order it sends them: the call
  to the language model with its prompt, the read of the inventory service and the
  update of the inventory service with the body's two values.
\<close>

datatype request = Gemini_POST string | Inventory_GET | Inventory_POST pyval pyval

text \<open>
  The state that a call of the server can change: the dictionary of the inventory
  service and the requests sent so far.
\<close>

record world =
  store :: inventory_dict
  sent :: "request list"

text \<open>Whether \<open>httpx\<close> reaches the inventory service; if not, the text of its \<open>RequestError\<close>.\<close>

datatype link = Connected | RequestError string

text \<open>
  What the function reads from outside and cannot change:
  \<^item> \<open>GEMINI_API_KEY\<close>, the global read from the process environment, empty when unset;
  \<^item> \<open>gemini\<close>, what lines 101 to 179 of \<open>call_gemini_llm\<close> come out with for a prompt: the
    parsed JSON of the model's answer, or the \<open>HTTPException\<close> that every failure of the
    exchange and of the parsing is turned into by the \<open>except\<close> clauses there;
  \<^item> \<open>inventory_link\<close>, the connection to the inventory service;
  \<^item> \<open>coerce\<close>, what the web framework's validation of a request body against
    \<open>InventoryUpdateRequest\<close> does with values that are not a JSON string for \<open>item\<close> and a
    JSON integer for \<open>change\<close>: the request it builds from them, or the \<open>detail\<close> value of
    its 422 answer.
\<close>

record env =
  GEMINI_API_KEY :: string
  gemini :: "string \<Rightarrow> HTTPException + pyval"
  inventory_link :: link
  coerce :: "pyval \<Rightarrow> pyval \<Rightarrow> pyval + InventoryUpdateRequest"

subsection \<open>Python's view of the parsed values\<close>

text \<open>Truth value of a value in a condition (\<open>if item:\<close>).\<close>

fun truthy :: "pyval \<Rightarrow> bool" where
  "truthy PNone = False"
| "truthy (PBool b) = b"
| "truthy (PInt n) = (n \<noteq> 0)"
| "truthy (PStr s) = (s \<noteq> [])"
| "truthy (PList xs) = (xs \<noteq> [])"
| "truthy (PDict kvs) = (kvs \<noteq> [])"

text \<open>\<open>d.get(key, dflt)\<close> on a parsed JSON object.\<close>

definition dict_get :: "(string \<times> pyval) list \<Rightarrow> string \<Rightarrow> pyval \<Rightarrow> pyval" where
  "dict_get d key dflt = (case map_of d key of None \<Rightarrow> dflt | Some v \<Rightarrow> v)"

text \<open>
  The exceptions that are not an \<open>HTTPException\<close> and that the function can raise itself:
  its own \<open>ValueError\<close> with its message, and the \<open>TypeError\<close> of a dictionary lookup
  with a list or a dictionary as the key, with the name of the key's type.
\<close>

datatype py_exception = ValueError fstring | TypeError string

fun type_name :: "py_exception \<Rightarrow> string" where
  "type_name (ValueError m) = ''ValueError''"
| "type_name (TypeError t) = ''TypeError''"

fun exception_text :: "py_exception \<Rightarrow> fstring" where
  "exception_text (ValueError m) = m"
| "exception_text (TypeError t) = [Lit (''unhashable type: '' @ apos @ t @ apos)]"

text \<open>
  \<open>inventory_state.get(item, 0)\<close>: the keys of the dictionary are strings, so only a
  string can be found; a list or a dictionary cannot be hashed; any other value is
  absent and gives the default.
\<close>

fun state_get :: "inventory_dict \<Rightarrow> pyval \<Rightarrow> py_exception + int" where
  "state_get m (PStr s) = Inr (case map_of m s of None \<Rightarrow> 0 | Some c \<Rightarrow> c)"
| "state_get m (PList xs) = Inl (TypeError ''list'')"
| "state_get m (PDict kvs) = Inl (TypeError ''dict'')"
| "state_get m v = Inr 0"

subsection \<open>The inventory service as the server reaches it\<close>

text \<open>
  \<open>POST /inventory\<close> with the body \<open>{"item": it, "change": ch}\<close>: the body is validated
  against \<open>InventoryUpdateRequest\<close> (\<open>item: str\<close>, \<open>change: int\<close>) before \<open>update_inventory\<close>
  runs.
\<close>

definition validate_body :: "env \<Rightarrow> pyval \<Rightarrow> pyval \<Rightarrow> pyval + InventoryUpdateRequest" where
  "validate_body e it ch =
     (case (it, ch) of
        (PStr s, PInt n) \<Rightarrow> Inr \<lparr>item = s, change = n\<rparr>
      | _ \<Rightarrow> coerce e it ch)"

subsection \<open>\<open>call_gemini_llm\<close>\<close>

definition call_gemini_llm :: "env \<Rightarrow> world \<Rightarrow> string \<Rightarrow> (HTTPException + pyval) \<times> world" where
  "call_gemini_llm e w prompt =
     (if GEMINI_API_KEY e = []
      then (Inl \<lparr>status_code = HTTP_500_INTERNAL_SERVER_ERROR,
                  detail = [Lit ''Gemini API key is not configured. Please set the GEMINI_API_KEY environment variable.'']\<rparr>,
            w)
      else (gemini e prompt, w\<lparr>sent := sent w @ [Gemini_POST prompt]\<rparr>))"

subsection \<open>\<open>process_natural_language_query\<close>\<close>

record MCPResponse =
  message :: fstring
  inventory_state :: inventory_dict
  error :: "string option"

text \<open>The last \<open>except\<close> clause: any exception that is not an \<open>HTTPException\<close> becomes a 500.\<close>

definition unexpected :: "py_exception \<Rightarrow> HTTPException" where
  "unexpected exn =
     \<lparr>status_code = HTTP_500_INTERNAL_SERVER_ERROR,
      detail = [Lit ''An unexpected error occurred: '', Lit (type_name exn), Lit '': '']
               @ exception_text exn\<rparr>"

text \<open>The clause for \<open>httpx.RequestError\<close>.\<close>

definition unreachable :: "string \<Rightarrow> HTTPException" where
  "unreachable exc =
     \<lparr>status_code = HTTP_503_SERVICE_UNAVAILABLE,
      detail = [Lit ''Failed to connect to Inventory Service at '',
                Fmt (PStr INVENTORY_SERVICE_BASE_URL), Lit '': '', Lit exc]\<rparr>"

text \<open>
  The clause for \<open>httpx.HTTPStatusError\<close>: the status of the inventory service's answer
  and the \<open>detail\<close> of its body, which for an \<open>HTTPException\<close> raised there is the text of
  that exception's detail.
\<close>

definition service_error :: "nat \<Rightarrow> fstring \<Rightarrow> HTTPException" where
  "service_error code error_detail =
     \<lparr>status_code = code,
      detail = [Lit ''Inventory Service returned an error: ''] @ error_detail
               @ [Lit '' (HTTP '', Fmt (PInt (int code)), Lit '')'']\<rparr>"

definition process_natural_language_query ::
  "env \<Rightarrow> world \<Rightarrow> string \<Rightarrow> (HTTPException + MCPResponse) \<times> world"
where
  "process_natural_language_query e w user_query =
     (case call_gemini_llm e w (llm_prompt user_query) of
        (Inl exn, w1) \<Rightarrow> (Inl exn, w1)
      | (Inr llm_parsed_data, w1) \<Rightarrow>
          (case llm_parsed_data of
             PDict d \<Rightarrow>
               (if map_of d ''operation'' = None
                then (Inl (unexpected (ValueError
                        [Lit (''LLM response is not a valid dictionary or missing 'operation' key. Received: ''),
                         Fmt llm_parsed_data])), w1)
                else
                  (let operation = dict_get d ''operation'' PNone;
                       item = dict_get d ''item'' PNone;
                       change = dict_get d ''change'' PNone;
                       reasoning = dict_get d ''reasoning''
                                     (PStr ''No specific reasoning provided by LLM.'')
                   in if operation = PStr ''GET'' then
                        (let w2 = w1\<lparr>sent := sent w1 @ [Inventory_GET]\<rparr>
                         in case inventory_link e of
                              RequestError exc \<Rightarrow> (Inl (unreachable exc), w2)
                            | Connected \<Rightarrow>
                                (let inventory_state = get_inventory (store w2)
                                 in if truthy item then
                                      (case state_get inventory_state item of
                                         Inl exn \<Rightarrow> (Inl (unexpected exn), w2)
                                       | Inr item_count \<Rightarrow>
                                           (Inr \<lparr>message =
                                                   [Lit ''Successfully retrieved inventory for '',
                                                    Fmt item, Lit '': '', Fmt (PInt item_count),
                                                    Lit ''. Reasoning: '', Fmt reasoning],
                                                 inventory_state = inventory_state,
                                                 error = None\<rparr>, w2))
                                    else
                                      (Inr \<lparr>message =
                                              [Lit ''Successfully retrieved inventory. Reasoning: '',
                                               Fmt reasoning],
                                            inventory_state = inventory_state,
                                            error = None\<rparr>, w2)))
                      else if operation = PStr ''POST'' then
                        (if item = PNone \<or> change = PNone
                         then (Inl \<lparr>status_code = HTTP_400_BAD_REQUEST,
                                     detail =
                                       [Lit ''LLM failed to extract required 'item' or 'change' for POST operation. LLM Reasoning: '',
                                        Fmt reasoning]\<rparr>, w1)
                         else
                           (let w2 = w1\<lparr>sent := sent w1 @ [Inventory_POST item change]\<rparr>
                            in case inventory_link e of
                                 RequestError exc \<Rightarrow> (Inl (unreachable exc), w2)
                               | Connected \<Rightarrow>
                                   (case validate_body e item change of
                                      Inl error_detail \<Rightarrow>
                                        (Inl (service_error 422 [Fmt error_detail]), w2)
                                    | Inr body \<Rightarrow>
                                        (case update_inventory (store w2) body of
                                           (Inl exn, db') \<Rightarrow>
                                             (Inl (service_error (status_code exn) (detail exn)),
                                              w2\<lparr>store := db'\<rparr>)
                                         | (Inr updated_inventory, db') \<Rightarrow>
                                             (Inr \<lparr>message =
                                                     [Lit ''Successfully updated inventory for '',
                                                      Fmt item, Lit '' by '', Fmt change,
                                                      Lit ''. Reasoning: '', Fmt reasoning],
                                                   inventory_state = updated_inventory,
                                                   error = None\<rparr>,
                                              w2\<lparr>store := db'\<rparr>)))))
                      else
                        (Inl \<lparr>status_code = HTTP_400_BAD_REQUEST,
                              detail =
                                [Lit (''LLM returned an unsupported operation: '' @ apos),
                                 Fmt operation,
                                 Lit (apos @ ''. LLM Reasoning: ''),
                                 Fmt reasoning]\<rparr>, w1)))
           | _ \<Rightarrow>
               (Inl (unexpected (ValueError
                  [Lit (''LLM response is not a valid dictionary or missing 'operation' key. Received: ''),
                   Fmt llm_parsed_data])), w1)))"

section \<open>Properties of the inventory service\<close>

subsection \<open>The three outcomes of an update\<close>

lemma update_inventory_invalid:
  "map_of db (str_lower (item r)) = None \<Longrightarrow>
   update_inventory db r =
     (Inl \<lparr>status_code = 400,
           detail = [Lit (''Invalid item: '' @ apos), Fmt (PStr (item r)),
                     Lit (apos @ ''. Only 'tshirts' and 'pants' are supported.'')]\<rparr>, db)"
  by (simp add: update_inventory_def HTTP_400_BAD_REQUEST_def)

lemma update_inventory_negative:
  "map_of db (str_lower (item r)) = Some c \<Longrightarrow> c + change r < 0 \<Longrightarrow>
   update_inventory db r =
     (Inl \<lparr>status_code = 400,
           detail = [Lit (''Cannot reduce '' @ apos), Fmt (PStr (str_lower (item r))),
                     Lit (apos @ '' stock below zero. Current: ''), Fmt (PInt c),
                     Lit '', Attempted change: '', Fmt (PInt (change r))]\<rparr>, db)"
  by (simp add: update_inventory_def HTTP_400_BAD_REQUEST_def)

lemma update_inventory_accepted:
  "map_of db (str_lower (item r)) = Some c \<Longrightarrow> 0 \<le> c + change r \<Longrightarrow>
   update_inventory db r =
     (Inr (AList.update (str_lower (item r)) (c + change r) db),
      AList.update (str_lower (item r)) (c + change r) db)"
  by (simp add: update_inventory_def Let_def)

lemma update_inventory_state:
  "snd (update_inventory db r) = db \<or>
   (\<exists>c. map_of db (str_lower (item r)) = Some c \<and> 0 \<le> c + change r \<and>
        snd (update_inventory db r) = AList.update (str_lower (item r)) (c + change r) db)"
  by (auto simp: update_inventory_def Let_def split: option.splits)

subsection \<open>What every call keeps: the keys and the sign of the counts\<close>

lemma set_AList_update: "set (AList.update k v al) \<subseteq> insert (k, v) (set al)"
  by (induction al) auto

lemma keys_AList_update: "map_of al k = Some c \<Longrightarrow> map fst (AList.update k v al) = map fst al"
  by (induction al) (auto split: if_splits)

lemma update_inventory_nonneg: "nonneg db \<Longrightarrow> nonneg (snd (update_inventory db r))"
  using update_inventory_state [of db r] set_AList_update
  by (fastforce simp: nonneg_def)

lemma update_inventory_keys: "map fst (snd (update_inventory db r)) = map fst db"
  using update_inventory_state [of db r] by (auto simp: keys_AList_update)

lemma serve_nonneg: "nonneg db \<Longrightarrow> nonneg (snd (serve db c))"
  by (cases c) (simp_all add: update_inventory_nonneg)

lemma serve_keys: "map fst (snd (serve db c)) = map fst db"
  by (cases c) (simp_all add: update_inventory_keys)

lemma history_nonneg: "nonneg db \<Longrightarrow> s \<in> set (history db cs) \<Longrightarrow> nonneg s"
proof (induction cs arbitrary: db)
  case Nil
  then show ?case by simp
next
  case (Cons c cs)
  then show ?case using serve_nonneg [of db c] by auto
qed

lemma history_keys: "s \<in> set (history db cs) \<Longrightarrow> map fst s = map fst db"
  by (induction cs arbitrary: db) (auto simp: serve_keys)

lemma nonneg_inventory: "nonneg inventory"
  by (simp add: nonneg_def inventory_def)

subsection \<open>Lowercasing an identifier that differs in letter case only\<close>

lemma char_lower_same_letter:
  assumes "same_letter c d" and "97 \<le> (of_char d :: nat)" and "(of_char d :: nat) \<le> 122"
  shows "char_lower c = d"
proof -
  consider "c = d" | "capital_of c d" | "capital_of d c"
    using assms(1) by (auto simp: same_letter_def)
  then show ?thesis
  proof cases
    case 1
    then show ?thesis using assms(2,3) by (simp add: char_lower_def)
  next
    case 2
    then have "(of_char c :: nat) + 32 = of_char d" by (simp add: capital_of_def)
    then show ?thesis using assms(2,3) by (auto simp: char_lower_def Let_def)
  next
    case 3
    then show ?thesis using assms(2,3) by (simp add: capital_of_def)
  qed
qed

lemma str_lower_differs_only_in_case:
  "differs_only_in_case s t \<Longrightarrow> \<forall>d \<in> set t. 97 \<le> (of_char d :: nat) \<and> (of_char d :: nat) \<le> 122 \<Longrightarrow>
   str_lower s = t"
  unfolding differs_only_in_case_def str_lower_def
  by (induction s t rule: list_all2_induct) (auto simp: char_lower_same_letter)

lemma known_items_small_letters:
  "k \<in> set known_items \<Longrightarrow> \<forall>d \<in> set k. 97 \<le> (of_char d :: nat) \<and> (of_char d :: nat) \<le> 122"
  by (auto simp: known_items_def inventory_def)

lemma map_of_keys: "(map_of al k = None) = (k \<notin> set (map fst al))"
  by (simp add: map_of_eq_None_iff)

subsection \<open>The counts after a list of update requests\<close>

lemma history_nonempty: "history db cs \<noteq> []"
  by (cases cs) simp_all

lemma accepted_total_Nil: "accepted_total db [] k = 0"
  by (simp add: accepted_total_def)

lemma accepted_total_rejected:
  "update_inventory db r = (Inl e, db') \<Longrightarrow> accepted_total db (r # rs) k = accepted_total db' rs k"
  by (simp add: accepted_total_def)

lemma accepted_total_accepted:
  "update_inventory db r = (Inr m, db') \<Longrightarrow>
   accepted_total db (r # rs) k =
     (if str_lower (item r) = k then change r else 0) + accepted_total db' rs k"
  by (simp add: accepted_total_def)

lemma history_total:
  "map_of (last (history db (map Update rs))) k =
     (case map_of db k of None \<Rightarrow> None | Some c \<Rightarrow> Some (c + accepted_total db rs k))"
proof (induction rs arbitrary: db)
  case Nil
  then show ?case by (simp add: accepted_total_Nil split: option.splits)
next
  case (Cons r rs)
  let ?n = "str_lower (item r)"
  have L: "last (history db (map Update (r # rs))) =
           last (history (snd (update_inventory db r)) (map Update rs))"
    by (simp add: history_nonempty)
  have rejected: ?case if u: "update_inventory db r = (Inl e, db)" for e
  proof -
    have "map_of (last (history db (map Update (r # rs)))) k =
          map_of (last (history db (map Update rs))) k"
      by (simp only: L u snd_conv)
    also have "\<dots> = (case map_of db k of None \<Rightarrow> None
                      | Some c \<Rightarrow> Some (c + accepted_total db rs k))"
      by (rule Cons.IH)
    also have "\<dots> = (case map_of db k of None \<Rightarrow> None
                      | Some c \<Rightarrow> Some (c + accepted_total db (r # rs) k))"
      by (simp only: accepted_total_rejected [OF u])
    finally show ?thesis .
  qed
  consider (invalid) "map_of db ?n = None"
    | (negative) c where "map_of db ?n = Some c" and "c + change r < 0"
    | (ok) c where "map_of db ?n = Some c" and "0 \<le> c + change r"
    by (cases "map_of db ?n") (simp, fastforce simp: not_less)
  then show ?case
  proof cases
    case invalid
    from update_inventory_invalid [OF this] show ?thesis
      by (rule rejected)
  next
    case negative
    from update_inventory_negative [OF this] show ?thesis
      by (rule rejected)
  next
    case ok
    let ?db' = "AList.update ?n (c + change r) db"
    have u: "update_inventory db r = (Inr ?db', ?db')"
      by (rule update_inventory_accepted [OF ok])
    have m: "map_of ?db' k = (if k = ?n then Some (c + change r) else map_of db k)"
      by (simp add: update_conv')
    have "map_of (last (history db (map Update (r # rs)))) k =
          map_of (last (history ?db' (map Update rs))) k"
      by (simp only: L u snd_conv)
    also have "\<dots> = (case map_of ?db' k of None \<Rightarrow> None
                      | Some c \<Rightarrow> Some (c + accepted_total ?db' rs k))"
      by (rule Cons.IH)
    also have "\<dots> = (case map_of db k of None \<Rightarrow> None
                      | Some c \<Rightarrow> Some (c + accepted_total db (r # rs) k))"
      using ok(1) by (auto simp: m accepted_total_accepted [OF u] split: option.splits)
    finally show ?thesis .
  qed
qed

lemma differs_only_in_case_refl: "differs_only_in_case k k"
  by (simp add: differs_only_in_case_def same_letter_def list_all2_refl)

section \<open>Claims about the inventory service\<close>

text \<open>
  Claim C1. Whatever list of update requests is served from the initial dictionary, in
  every dictionary the store goes through (before the first request, between two
  requests, after the last one) every stored count is at least zero. A rejected request
  is a step of the list like any other; it leaves the dictionary as it was.
\<close>

theorem update_counts_never_negative:
  "s \<in> set (history inventory (map Update rs)) \<Longrightarrow> (k, c) \<in> set s \<Longrightarrow> 0 \<le> c"
  using history_nonneg [OF nonneg_inventory, of s "map Update rs"]
  by (force simp: nonneg_def)

theorem update_counts_never_negative_witness:
  "[(''tshirts'', 17), (''pants'', 15)]
     \<in> set (history inventory
              (map Update [\<lparr>item = ''tshirts'', change = - 3\<rparr>, \<lparr>item = ''pants'', change = - 100\<rparr>]))
   \<and> (0::int) \<le> 15"
proof -
  have h: "[(''tshirts'', 17), (''pants'', 15)]
     \<in> set (history inventory
              (map Update [\<lparr>item = ''tshirts'', change = - 3\<rparr>, \<lparr>item = ''pants'', change = - 100\<rparr>]))"
    by code_simp
  have m: "(''pants'', 15::int) \<in> set [(''tshirts'', 17), (''pants'', 15)]"
    by simp
  show ?thesis
    using h update_counts_never_negative [OF h m] by simp
qed

text \<open>
  Claim C2. When the identifier of a request lowercases to a key of the dictionary (a
  known item is its own lowercase form) and the current count \<open>c\<close> of that key plus the
  requested change \<open>d\<close> is below zero, \<open>update_inventory\<close> raises an \<open>HTTPException\<close>
  with status 400 whose detail interpolates the current count \<open>c\<close> and the attempted
  change \<open>d\<close>, and the dictionary after the call is the dictionary before it.
\<close>

theorem negative_stock_rejected:
  assumes "map_of db (str_lower i) = Some c" and "c + d < 0"
  shows "update_inventory db \<lparr>item = i, change = d\<rparr> =
           (Inl \<lparr>status_code = 400,
                 detail = [Lit (''Cannot reduce '' @ apos), Fmt (PStr (str_lower i)),
                           Lit (apos @ '' stock below zero. Current: ''), Fmt (PInt c),
                           Lit '', Attempted change: '', Fmt (PInt d)]\<rparr>,
            db)"
  using update_inventory_negative [of db "\<lparr>item = i, change = d\<rparr>" c] assms by simp

theorem negative_stock_rejected_witness:
  "map_of [(''tshirts'', 17), (''pants'', 15)] (str_lower ''pants'') = Some 15 \<and> (15::int) + - 100 < 0 \<and>
   update_inventory [(''tshirts'', 17), (''pants'', 15)] \<lparr>item = ''pants'', change = - 100\<rparr> =
     (Inl \<lparr>status_code = 400,
           detail = [Lit (''Cannot reduce '' @ apos), Fmt (PStr ''pants''),
                     Lit (apos @ '' stock below zero. Current: ''), Fmt (PInt 15),
                     Lit '', Attempted change: '', Fmt (PInt (- 100))]\<rparr>,
      [(''tshirts'', 17), (''pants'', 15)])"
proof -
  have l: "str_lower ''pants'' = ''pants''"
    by code_simp
  have h: "map_of [(''tshirts'', 17), (''pants'', 15::int)] (str_lower ''pants'') = Some 15"
    by (simp add: l)
  have n: "(15::int) + - 100 < 0"
    by simp
  show ?thesis
    using h n negative_stock_rejected [OF h n] by (simp add: l)
qed

text \<open>
  Claim C3. Let the keys of the dictionary be the known items. When the lowercase form
  of the identifier is not a known item, \<open>update_inventory\<close> raises an \<open>HTTPException\<close>
  with status 400 whose detail interpolates the identifier as it was sent, and the
  dictionary after the call is the dictionary before it, whatever the change. When the
  identifier differs from a known item \<open>k\<close> only in letter case, its lowercase form is
  \<open>k\<close>, the lookup finds it, and the call does exactly what the call with \<open>k\<close> does.
\<close>

theorem invalid_item_rejected:
  assumes "map fst db = known_items"
  shows "(str_lower i \<notin> set known_items \<longrightarrow>
            update_inventory db \<lparr>item = i, change = d\<rparr> =
              (Inl \<lparr>status_code = 400,
                    detail = [Lit (''Invalid item: '' @ apos), Fmt (PStr i),
                              Lit (apos @ ''. Only 'tshirts' and 'pants' are supported.'')]\<rparr>,
               db))
       \<and> (k \<in> set known_items \<and> differs_only_in_case i k \<longrightarrow>
            str_lower i = k \<and> map_of db (str_lower i) \<noteq> None \<and>
            update_inventory db \<lparr>item = i, change = d\<rparr> =
              update_inventory db \<lparr>item = k, change = d\<rparr>)"
proof (intro conjI impI)
  assume "str_lower i \<notin> set known_items"
  then have "map_of db (str_lower (item \<lparr>item = i, change = d\<rparr>)) = None"
    using assms by (simp add: map_of_keys)
  from update_inventory_invalid [OF this]
  show "update_inventory db \<lparr>item = i, change = d\<rparr> =
          (Inl \<lparr>status_code = 400,
                detail = [Lit (''Invalid item: '' @ apos), Fmt (PStr i),
                          Lit (apos @ ''. Only 'tshirts' and 'pants' are supported.'')]\<rparr>,
           db)"
    by simp
next
  assume a: "k \<in> set known_items \<and> differs_only_in_case i k"
  then show l: "str_lower i = k"
    using str_lower_differs_only_in_case known_items_small_letters by blast
  have "str_lower k = k"
    using a str_lower_differs_only_in_case [OF differs_only_in_case_refl] known_items_small_letters
    by blast
  moreover have "map_of db k \<noteq> None"
    using a assms by (simp add: map_of_keys)
  ultimately show "update_inventory db \<lparr>item = i, change = d\<rparr> =
             update_inventory db \<lparr>item = k, change = d\<rparr>"
    using l by (auto simp: update_inventory_def)
  show "map_of db (str_lower i) \<noteq> None"
    using a l assms by (simp add: map_of_keys)
qed

theorem invalid_item_rejected_witness:
  "update_inventory inventory \<lparr>item = ''shoes'', change = 1\<rparr> =
     (Inl \<lparr>status_code = 400,
           detail = [Lit (''Invalid item: '' @ apos), Fmt (PStr ''shoes''),
                     Lit (apos @ ''. Only 'tshirts' and 'pants' are supported.'')]\<rparr>,
      inventory)
   \<and> str_lower ''TShirts'' = ''tshirts''
   \<and> map_of inventory (str_lower ''TShirts'') \<noteq> None
   \<and> update_inventory inventory \<lparr>item = ''TShirts'', change = - 3\<rparr> =
       update_inventory inventory \<lparr>item = ''tshirts'', change = - 3\<rparr>"
proof -
  have k: "map fst inventory = known_items"
    by (simp add: known_items_def)
  have u: "str_lower ''shoes'' \<notin> set known_items"
    by code_simp
  have v: "''tshirts'' \<in> set known_items \<and> differs_only_in_case ''TShirts'' ''tshirts''"
    by code_simp
  from invalid_item_rejected [OF k, of "''shoes''" 1 "''tshirts''"] u
  have 1: "update_inventory inventory \<lparr>item = ''shoes'', change = 1\<rparr> =
     (Inl \<lparr>status_code = 400,
           detail = [Lit (''Invalid item: '' @ apos), Fmt (PStr ''shoes''),
                     Lit (apos @ ''. Only 'tshirts' and 'pants' are supported.'')]\<rparr>,
      inventory)"
    by blast
  from invalid_item_rejected [OF k, of "''TShirts''" "- 3" "''tshirts''"] v
  have 2: "str_lower ''TShirts'' = ''tshirts''
   \<and> map_of inventory (str_lower ''TShirts'') \<noteq> None
   \<and> update_inventory inventory \<lparr>item = ''TShirts'', change = - 3\<rparr> =
       update_inventory inventory \<lparr>item = ''tshirts'', change = - 3\<rparr>"
    by blast
  from 1 2 show ?thesis by blast
qed

text \<open>
  Claim C4. When the identifier lowercases to a key with count \<open>c\<close> and \<open>c + d\<close> is not
  negative, \<open>update_inventory\<close> returns the updated dictionary, which is also the stored
  one; it holds \<open>c + d\<close> for that key, the same counts as before for every other key, and
  the same keys in the same order. Consequently, after any list of update requests served
  from the initial dictionary, \<open>get_inventory\<close> returns the initial counts plus, for each
  item, the sum of the changes of the accepted requests addressed to it.
\<close>

theorem accepted_update_is_cumulative:
  "(map_of db (str_lower i) = Some c \<and> 0 \<le> c + d \<longrightarrow>
      (\<exists>db'. update_inventory db \<lparr>item = i, change = d\<rparr> = (Inr db', db')
           \<and> map_of db' (str_lower i) = Some (c + d)
           \<and> (\<forall>k. k \<noteq> str_lower i \<longrightarrow> map_of db' k = map_of db k)
           \<and> map fst db' = map fst db))
   \<and> get_inventory (last (history inventory (map Update rs))) =
       [(''tshirts'', 20 + accepted_total inventory rs ''tshirts''),
        (''pants'', 15 + accepted_total inventory rs ''pants'')]"
proof (intro conjI impI)
  assume a: "map_of db (str_lower i) = Some c \<and> 0 \<le> c + d"
  let ?db' = "AList.update (str_lower i) (c + d) db"
  have "update_inventory db \<lparr>item = i, change = d\<rparr> = (Inr ?db', ?db')"
    using update_inventory_accepted [of db "\<lparr>item = i, change = d\<rparr>" c] a by simp
  moreover have "map_of ?db' (str_lower i) = Some (c + d)"
    by (simp add: update_conv')
  moreover have "\<forall>k. k \<noteq> str_lower i \<longrightarrow> map_of ?db' k = map_of db k"
    by (simp add: update_conv')
  moreover have "map fst ?db' = map fst db"
    using a by (simp add: keys_AList_update)
  ultimately show "\<exists>db'. update_inventory db \<lparr>item = i, change = d\<rparr> = (Inr db', db')
           \<and> map_of db' (str_lower i) = Some (c + d)
           \<and> (\<forall>k. k \<noteq> str_lower i \<longrightarrow> map_of db' k = map_of db k)
           \<and> map fst db' = map fst db"
    by blast
next
  let ?s = "last (history inventory (map Update rs))"
  have "?s \<in> set (history inventory (map Update rs))"
    by (simp add: history_nonempty)
  then have keys: "map fst ?s = [''tshirts'', ''pants'']"
    by (simp add: history_keys inventory_def)
  have t: "map_of ?s ''tshirts'' = Some (20 + accepted_total inventory rs ''tshirts'')"
    by (simp add: history_total) (simp add: inventory_def)
  have p: "map_of ?s ''pants'' = Some (15 + accepted_total inventory rs ''pants'')"
    by (simp add: history_total) (simp add: inventory_def)
  from keys obtain a b where s: "?s = [(''tshirts'', a), (''pants'', b)]"
    by (auto simp: map_eq_Cons_conv)
  show "get_inventory ?s =
       [(''tshirts'', 20 + accepted_total inventory rs ''tshirts''),
        (''pants'', 15 + accepted_total inventory rs ''pants'')]"
    using t p unfolding s get_inventory_def by simp
qed

theorem accepted_update_is_cumulative_witness:
  "map_of inventory (str_lower ''TShirts'') = Some 20 \<and> (0::int) \<le> 20 + - 3
   \<and> (\<exists>db'. update_inventory inventory \<lparr>item = ''TShirts'', change = - 3\<rparr> = (Inr db', db')
           \<and> map_of db' (str_lower ''TShirts'') = Some (20 + - 3)
           \<and> map_of db' ''pants'' = map_of inventory ''pants''
           \<and> map fst db' = map fst inventory)
   \<and> get_inventory (last (history inventory (map Update
         [\<lparr>item = ''TShirts'', change = - 3\<rparr>, \<lparr>item = ''pants'', change = - 100\<rparr>,
          \<lparr>item = ''pants'', change = 5\<rparr>]))) =
       [(''tshirts'', 17), (''pants'', 20)]"
proof -
  have h: "map_of inventory (str_lower ''TShirts'') = Some 20 \<and> (0::int) \<le> 20 + - 3"
    by code_simp
  have n: "''pants'' \<noteq> str_lower ''TShirts''"
    by code_simp
  have t: "20 + accepted_total inventory
         [\<lparr>item = ''TShirts'', change = - 3\<rparr>, \<lparr>item = ''pants'', change = - 100\<rparr>,
          \<lparr>item = ''pants'', change = 5\<rparr>] ''tshirts'' = 17"
    by code_simp
  have p: "15 + accepted_total inventory
         [\<lparr>item = ''TShirts'', change = - 3\<rparr>, \<lparr>item = ''pants'', change = - 100\<rparr>,
          \<lparr>item = ''pants'', change = 5\<rparr>] ''pants'' = 20"
    by code_simp
  show ?thesis
    using h n accepted_update_is_cumulative [of inventory "''TShirts''" 20 "- 3"
        "[\<lparr>item = ''TShirts'', change = - 3\<rparr>, \<lparr>item = ''pants'', change = - 100\<rparr>,
          \<lparr>item = ''pants'', change = 5\<rparr>]"]
    unfolding t p by blast
qed

text \<open>
  Claim C5. Whatever list of reads and updates (accepted or rejected) is served from the
  initial dictionary, every dictionary the store goes through has exactly the two
  initial keys, in their initial order: no call adds or deletes a key.
\<close>

theorem key_set_is_fixed:
  "s \<in> set (history inventory cs) \<Longrightarrow> map fst s = [''tshirts'', ''pants'']"
  using history_keys [of s inventory cs] by (simp add: inventory_def)

theorem key_set_is_fixed_witness:
  "[(''tshirts'', 17), (''pants'', 15)]
     \<in> set (history inventory
              [Read, Update \<lparr>item = ''tshirts'', change = - 3\<rparr>,
               Update \<lparr>item = ''shoes'', change = 1\<rparr>, Read])
   \<and> map fst [(''tshirts'', 17::int), (''pants'', 15)] = [''tshirts'', ''pants'']"
proof -
  have h: "[(''tshirts'', 17), (''pants'', 15)]
     \<in> set (history inventory
              [Read, Update \<lparr>item = ''tshirts'', change = - 3\<rparr>,
               Update \<lparr>item = ''shoes'', change = 1\<rparr>, Read])"
    by code_simp
  show ?thesis
    using h key_set_is_fixed [OF h] by simp
qed

text \<open>
  Claim C10. When the keys of the dictionary are the known items, every stored count is
  at least zero, the identifier lowercases to a known item and the change is at least
  zero, \<open>update_inventory\<close> does not raise: it returns the updated dictionary. With a
  change of zero the dictionary after the call is the dictionary before it.
\<close>

theorem nonnegative_change_never_rejected:
  assumes "map fst db = known_items" and "nonneg db"
    and "str_lower i \<in> set known_items" and "0 \<le> d"
  shows "\<exists>db'. update_inventory db \<lparr>item = i, change = d\<rparr> = (Inr db', db')
           \<and> (d = 0 \<longrightarrow> db' = db)"
proof -
  from assms(1,3) obtain c where c: "map_of db (str_lower i) = Some c"
    using map_of_keys [of db "str_lower i"] by auto
  then have "(str_lower i, c) \<in> set db"
    by (rule map_of_SomeD)
  then have "0 \<le> c"
    using assms(2) by (force simp: nonneg_def)
  then have "0 \<le> c + d"
    using assms(4) by simp
  with c have u: "update_inventory db \<lparr>item = i, change = d\<rparr> =
      (Inr (AList.update (str_lower i) (c + d) db), AList.update (str_lower i) (c + d) db)"
    using update_inventory_accepted [of db "\<lparr>item = i, change = d\<rparr>" c] by simp
  have "d = 0 \<longrightarrow> AList.update (str_lower i) (c + d) db = db"
    using c by (simp add: update_triv)
  with u show ?thesis by blast
qed

theorem nonnegative_change_never_rejected_witness:
  "map fst inventory = known_items \<and> nonneg inventory
   \<and> str_lower ''Pants'' \<in> set known_items \<and> (0::int) \<le> 0
   \<and> update_inventory inventory \<lparr>item = ''Pants'', change = 0\<rparr> = (Inr inventory, inventory)"
proof -
  have k: "map fst inventory = known_items"
    by (simp add: known_items_def)
  have n: "nonneg inventory"
    by (simp add: nonneg_def inventory_def)
  have i: "str_lower ''Pants'' \<in> set known_items"
    by code_simp
  have d: "(0::int) \<le> 0"
    by simp
  show ?thesis
    using k n i nonnegative_change_never_rejected [OF k n i d] by auto
qed

section \<open>Properties of the MCP server\<close>

lemma call_gemini_llm_configured:
  "GEMINI_API_KEY e \<noteq> [] \<Longrightarrow>
   call_gemini_llm e w prompt = (gemini e prompt, w\<lparr>sent := sent w @ [Gemini_POST prompt]\<rparr>)"
  by (simp add: call_gemini_llm_def)

lemma call_gemini_llm_not_configured:
  "GEMINI_API_KEY e = [] \<Longrightarrow>
   call_gemini_llm e w prompt =
     (Inl \<lparr>status_code = 500,
           detail = [Lit ''Gemini API key is not configured. Please set the GEMINI_API_KEY environment variable.'']\<rparr>,
      w)"
  by (simp add: call_gemini_llm_def HTTP_500_INTERNAL_SERVER_ERROR_def)

section \<open>Claims about the MCP server\<close>

text \<open>
  Claim C6. Let the credential be set and let the language model's answer parse to an
  object whose \<open>operation\<close> is \<open>POST\<close> and whose \<open>item\<close> or \<open>change\<close> is absent (the key is
  missing or its value is \<open>null\<close>). Then \<open>process_natural_language_query\<close> raises an
  \<open>HTTPException\<close> with status 400 whose detail interpolates the model's \<open>reasoning\<close> (the
  fixed default text when the object has none). The only request sent is the one to
  the language model: none goes to the inventory service, and its dictionary is the one
  from before the call.
\<close>

theorem incomplete_write_intent_rejected:
  assumes "GEMINI_API_KEY e \<noteq> []"
    and "gemini e (llm_prompt q) = Inr (PDict d)"
    and "map_of d ''operation'' = Some (PStr ''POST'')"
    and "dict_get d ''item'' PNone = PNone \<or> dict_get d ''change'' PNone = PNone"
  shows "process_natural_language_query e w q =
           (Inl \<lparr>status_code = 400,
                 detail = [Lit ''LLM failed to extract required 'item' or 'change' for POST operation. LLM Reasoning: '',
                           Fmt (dict_get d ''reasoning'' (PStr ''No specific reasoning provided by LLM.''))]\<rparr>,
            w\<lparr>sent := sent w @ [Gemini_POST (llm_prompt q)]\<rparr>)"
proof -
  have op: "dict_get d ''operation'' PNone = PStr ''POST''"
    using assms(3) by (simp add: dict_get_def)
  show ?thesis
    using assms(2,3,4)
    by (simp add: process_natural_language_query_def call_gemini_llm_configured [OF assms(1)]
        op Let_def HTTP_400_BAD_REQUEST_def)
qed

theorem incomplete_write_intent_rejected_witness:
  "process_natural_language_query
     \<lparr>GEMINI_API_KEY = ''secret'',
      gemini = (\<lambda>p. Inr (PDict [(''operation'', PStr ''POST''), (''item'', PNone),
                                  (''change'', PNone), (''reasoning'', PStr ''No item named.'')])),
      inventory_link = Connected,
      coerce = (\<lambda>i c. Inl (PList []))\<rparr>
     \<lparr>store = inventory, sent = []\<rparr> ''sell some'' =
   (Inl \<lparr>status_code = 400,
         detail = [Lit ''LLM failed to extract required 'item' or 'change' for POST operation. LLM Reasoning: '',
                   Fmt (PStr ''No item named.'')]\<rparr>,
    \<lparr>store = inventory, sent = [Gemini_POST (llm_prompt ''sell some'')]\<rparr>)"
  using incomplete_write_intent_rejected
    [of "\<lparr>GEMINI_API_KEY = ''secret'',
      gemini = (\<lambda>p. Inr (PDict [(''operation'', PStr ''POST''), (''item'', PNone),
                                  (''change'', PNone), (''reasoning'', PStr ''No item named.'')])),
      inventory_link = Connected,
      coerce = (\<lambda>i c. Inl (PList []))\<rparr>"
      "''sell some''"
      "[(''operation'', PStr ''POST''), (''item'', PNone),
        (''change'', PNone), (''reasoning'', PStr ''No item named.'')]"
      "\<lparr>store = inventory, sent = []\<rparr>"]
  by (simp add: dict_get_def)

text \<open>
  Claim C7. Let the credential be set, let the language model's answer parse to an object
  whose \<open>operation\<close> is \<open>GET\<close> and whose \<open>item\<close> is a non-empty string \<open>s\<close>, and let the
  inventory service be reached (the claim is about a store that answers; a store that
  cannot be reached is the matter of the 503 clause). Then the function returns an
  \<open>MCPResponse\<close> whose \<open>inventory_state\<close> is the whole current dictionary and whose message
  interpolates \<open>s\<close> and the count the dictionary holds for \<open>s\<close>, or 0 when \<open>s\<close> is not one
  of its keys; it does not raise for a missing item. The dictionary is left as it was.
\<close>

theorem read_intent_cites_item_count:
  assumes "GEMINI_API_KEY e \<noteq> []"
    and "gemini e (llm_prompt q) = Inr (PDict d)"
    and "map_of d ''operation'' = Some (PStr ''GET'')"
    and "map_of d ''item'' = Some (PStr s)" and "s \<noteq> []"
    and "inventory_link e = Connected"
  shows "process_natural_language_query e w q =
           (Inr \<lparr>message = [Lit ''Successfully retrieved inventory for '', Fmt (PStr s), Lit '': '',
                            Fmt (PInt (case map_of (store w) s of None \<Rightarrow> 0 | Some c \<Rightarrow> c)),
                            Lit ''. Reasoning: '',
                            Fmt (dict_get d ''reasoning'' (PStr ''No specific reasoning provided by LLM.''))],
                 inventory_state = store w,
                 error = None\<rparr>,
            w\<lparr>sent := sent w @ [Gemini_POST (llm_prompt q), Inventory_GET]\<rparr>)"
proof -
  have op: "dict_get d ''operation'' PNone = PStr ''GET''"
    using assms(3) by (simp add: dict_get_def)
  have it: "dict_get d ''item'' PNone = PStr s"
    using assms(4) by (simp add: dict_get_def)
  show ?thesis
    using assms(2,3,5,6)
    by (simp add: process_natural_language_query_def call_gemini_llm_configured [OF assms(1)]
        op it Let_def get_inventory_def)
qed

theorem read_intent_cites_item_count_witness:
  "process_natural_language_query
     \<lparr>GEMINI_API_KEY = ''secret'',
      gemini = (\<lambda>p. Inr (PDict [(''operation'', PStr ''GET''), (''item'', PStr ''tshirts''),
                                  (''change'', PNone), (''reasoning'', PStr ''Stock question.'')])),
      inventory_link = Connected,
      coerce = (\<lambda>i c. Inl (PList []))\<rparr>
     \<lparr>store = inventory, sent = []\<rparr> ''how many tshirts'' =
   (Inr \<lparr>message = [Lit ''Successfully retrieved inventory for '', Fmt (PStr ''tshirts''), Lit '': '',
                    Fmt (PInt 20), Lit ''. Reasoning: '', Fmt (PStr ''Stock question.'')],
         inventory_state = inventory,
         error = None\<rparr>,
    \<lparr>store = inventory, sent = [Gemini_POST (llm_prompt ''how many tshirts''), Inventory_GET]\<rparr>)
   \<and> process_natural_language_query
     \<lparr>GEMINI_API_KEY = ''secret'',
      gemini = (\<lambda>p. Inr (PDict [(''operation'', PStr ''GET''), (''item'', PStr ''shoes''),
                                  (''reasoning'', PStr ''Stock question.'')])),
      inventory_link = Connected,
      coerce = (\<lambda>i c. Inl (PList []))\<rparr>
     \<lparr>store = inventory, sent = []\<rparr> ''how many shoes'' =
   (Inr \<lparr>message = [Lit ''Successfully retrieved inventory for '', Fmt (PStr ''shoes''), Lit '': '',
                    Fmt (PInt 0), Lit ''. Reasoning: '', Fmt (PStr ''Stock question.'')],
         inventory_state = inventory,
         error = None\<rparr>,
    \<lparr>store = inventory, sent = [Gemini_POST (llm_prompt ''how many shoes''), Inventory_GET]\<rparr>)"
  using read_intent_cites_item_count
    [of "\<lparr>GEMINI_API_KEY = ''secret'',
      gemini = (\<lambda>p. Inr (PDict [(''operation'', PStr ''GET''), (''item'', PStr ''tshirts''),
                                  (''change'', PNone), (''reasoning'', PStr ''Stock question.'')])),
      inventory_link = Connected,
      coerce = (\<lambda>i c. Inl (PList []))\<rparr>"
      "''how many tshirts''"
      "[(''operation'', PStr ''GET''), (''item'', PStr ''tshirts''),
        (''change'', PNone), (''reasoning'', PStr ''Stock question.'')]"
      "''tshirts''"
      "\<lparr>store = inventory, sent = []\<rparr>"]
    read_intent_cites_item_count
    [of "\<lparr>GEMINI_API_KEY = ''secret'',
      gemini = (\<lambda>p. Inr (PDict [(''operation'', PStr ''GET''), (''item'', PStr ''shoes''),
                                  (''reasoning'', PStr ''Stock question.'')])),
      inventory_link = Connected,
      coerce = (\<lambda>i c. Inl (PList []))\<rparr>"
      "''how many shoes''"
      "[(''operation'', PStr ''GET''), (''item'', PStr ''shoes''),
        (''reasoning'', PStr ''Stock question.'')]"
      "''shoes''"
      "\<lparr>store = inventory, sent = []\<rparr>"]
  by (simp add: dict_get_def inventory_def)

text \<open>
  Claim C8. Let the credential be set and let the language model's answer parse to an
  object whose \<open>operation\<close> is neither \<open>GET\<close> nor \<open>POST\<close>. Then the function raises an
  \<open>HTTPException\<close> with status 400 whose detail interpolates the operation and the
  model's \<open>reasoning\<close>. The only request sent is the one to the language model: none goes
  to the inventory service, and its dictionary is the one from before the call.
\<close>

theorem unsupported_operation_rejected:
  assumes "GEMINI_API_KEY e \<noteq> []"
    and "gemini e (llm_prompt q) = Inr (PDict d)"
    and "map_of d ''operation'' = Some operation"
    and "operation \<noteq> PStr ''GET''" and "operation \<noteq> PStr ''POST''"
  shows "process_natural_language_query e w q =
           (Inl \<lparr>status_code = 400,
                 detail = [Lit (''LLM returned an unsupported operation: '' @ apos), Fmt operation,
                           Lit (apos @ ''. LLM Reasoning: ''),
                           Fmt (dict_get d ''reasoning'' (PStr ''No specific reasoning provided by LLM.''))]\<rparr>,
            w\<lparr>sent := sent w @ [Gemini_POST (llm_prompt q)]\<rparr>)"
proof -
  have op: "dict_get d ''operation'' PNone = operation"
    using assms(3) by (simp add: dict_get_def)
  show ?thesis
    using assms(2,3,4,5)
    by (simp add: process_natural_language_query_def call_gemini_llm_configured [OF assms(1)]
        op Let_def HTTP_400_BAD_REQUEST_def)
qed

theorem unsupported_operation_rejected_witness:
  "process_natural_language_query
     \<lparr>GEMINI_API_KEY = ''secret'',
      gemini = (\<lambda>p. Inr (PDict [(''operation'', PStr ''DELETE''), (''item'', PStr ''pants''),
                                  (''reasoning'', PStr ''User wants pants removed.'')])),
      inventory_link = Connected,
      coerce = (\<lambda>i c. Inl (PList []))\<rparr>
     \<lparr>store = inventory, sent = []\<rparr> ''drop pants'' =
   (Inl \<lparr>status_code = 400,
         detail = [Lit (''LLM returned an unsupported operation: '' @ apos), Fmt (PStr ''DELETE''),
                   Lit (apos @ ''. LLM Reasoning: ''), Fmt (PStr ''User wants pants removed.'')]\<rparr>,
    \<lparr>store = inventory, sent = [Gemini_POST (llm_prompt ''drop pants'')]\<rparr>)"
  using unsupported_operation_rejected
    [of "\<lparr>GEMINI_API_KEY = ''secret'',
      gemini = (\<lambda>p. Inr (PDict [(''operation'', PStr ''DELETE''), (''item'', PStr ''pants''),
                                  (''reasoning'', PStr ''User wants pants removed.'')])),
      inventory_link = Connected,
      coerce = (\<lambda>i c. Inl (PList []))\<rparr>"
      "''drop pants''"
      "[(''operation'', PStr ''DELETE''), (''item'', PStr ''pants''),
        (''reasoning'', PStr ''User wants pants removed.'')]"
      "PStr ''DELETE''"
      "\<lparr>store = inventory, sent = []\<rparr>"]
  by (simp add: dict_get_def)

text \<open>
  Claim C9. When \<open>GEMINI_API_KEY\<close> is empty, \<open>call_gemini_llm\<close> raises an \<open>HTTPException\<close>
  with status 500 whose detail says that the key is not configured, for every prompt, and
  \<open>process_natural_language_query\<close> raises the same exception for every query. In both
  cases the world after the call is the world before it: no request has been sent, to the
  language model or to the inventory service.
\<close>

theorem missing_credential_fails_first:
  assumes "GEMINI_API_KEY e = []"
  shows "call_gemini_llm e w prompt =
           (Inl \<lparr>status_code = 500,
                 detail = [Lit ''Gemini API key is not configured. Please set the GEMINI_API_KEY environment variable.'']\<rparr>,
            w)
       \<and> process_natural_language_query e w q =
           (Inl \<lparr>status_code = 500,
                 detail = [Lit ''Gemini API key is not configured. Please set the GEMINI_API_KEY environment variable.'']\<rparr>,
            w)"
  by (simp add: process_natural_language_query_def call_gemini_llm_not_configured [OF assms])

theorem missing_credential_fails_first_witness:
  "call_gemini_llm
     \<lparr>GEMINI_API_KEY = [],
      gemini = (\<lambda>p. Inr (PDict [(''operation'', PStr ''GET''), (''reasoning'', PStr ''Stock question.'')])),
      inventory_link = Connected,
      coerce = (\<lambda>i c. Inl (PList []))\<rparr>
     \<lparr>store = inventory, sent = []\<rparr> (llm_prompt ''check inventory'') =
   (Inl \<lparr>status_code = 500,
         detail = [Lit ''Gemini API key is not configured. Please set the GEMINI_API_KEY environment variable.'']\<rparr>,
    \<lparr>store = inventory, sent = []\<rparr>)
   \<and> process_natural_language_query
     \<lparr>GEMINI_API_KEY = [],
      gemini = (\<lambda>p. Inr (PDict [(''operation'', PStr ''GET''), (''reasoning'', PStr ''Stock question.'')])),
      inventory_link = Connected,
      coerce = (\<lambda>i c. Inl (PList []))\<rparr>
     \<lparr>store = inventory, sent = []\<rparr> ''check inventory'' =
   (Inl \<lparr>status_code = 500,
         detail = [Lit ''Gemini API key is not configured. Please set the GEMINI_API_KEY environment variable.'']\<rparr>,
    \<lparr>store = inventory, sent = []\<rparr>)"
  using missing_credential_fails_first
    [of "\<lparr>GEMINI_API_KEY = [],
      gemini = (\<lambda>p. Inr (PDict [(''operation'', PStr ''GET''), (''reasoning'', PStr ''Stock question.'')])),
      inventory_link = Connected,
      coerce = (\<lambda>i c. Inl (PList []))\<rparr>"
      "\<lparr>store = inventory, sent = []\<rparr>" "llm_prompt ''check inventory''" "''check inventory''"]
  by simp

end
